theory Spec2Isabelle
  imports Complex_Main
begin

section \<open>The persistent cache of map8 and map9\_debugging\<close>

text \<open>
  The table \<open>locations\<close> created by \<open>create_location_database\<close> has the primary key
  \<open>location_hash\<close>, so it holds at most one row per hash: it is a partial map from the
  hash to the remaining columns. \<open>latitude\<close> and \<open>longitude\<close> are nullable, and
  \<open>timestamp\<close> takes its default \<open>CURRENT_TIMESTAMP\<close> whenever a row is written.
  Python floats are read as real numbers, and a DATETIME as a natural number of clock ticks.
\<close>

record cache_entry =
  location_string :: string
  latitude :: "real option"
  longitude :: "real option"
  attempts :: int
  last_attempt :: nat
  success :: bool
  timestamp :: nat

type_synonym locations = "string \<rightharpoonup> cache_entry"

text \<open>
  \<open>get_location_hash\<close> is \<open>hashlib.md5(location_string.encode()).hexdigest()\<close>. The digest
  comes from the standard library, so it is a parameter \<open>md5\<close> of every function that hashes.
\<close>

definition get_location_hash :: "(string \<Rightarrow> string) \<Rightarrow> string \<Rightarrow> string" where
  "get_location_hash md5 loc = md5 loc"

text \<open>
  \<open>process_location\<close> receives the geocoder as an argument and only calls its method
  \<open>geocode\<close>, which returns a pair of optional coordinates and may change the geocoder
  (its session, its request log). A geocoder is therefore a state transformer over its own
  state \<open>'g\<close>.
\<close>

type_synonym 'g geocoder = "string \<Rightarrow> 'g \<Rightarrow> (real option \<times> real option) \<times> 'g"

text \<open>
  The statement \<open>INSERT OR REPLACE INTO locations ... VALUES (?, ?, ?, ?,
  COALESCE((SELECT attempts + 1 FROM locations WHERE location_hash = ?), 1),
  CURRENT_TIMESTAMP, ?)\<close>: the row under the hash is replaced as a whole; the subquery is
  NULL exactly when there is no row yet, and then \<open>COALESCE\<close> gives 1.
\<close>

definition insert_or_replace ::
  "nat \<Rightarrow> string \<Rightarrow> string \<Rightarrow> real option \<Rightarrow> real option \<Rightarrow> bool \<Rightarrow> locations \<Rightarrow> locations" where
  "insert_or_replace now location_hash loc lat lon succ db =
     db(location_hash \<mapsto>
        \<lparr>location_string = loc, latitude = lat, longitude = lon,
         attempts = (case db location_hash of None \<Rightarrow> 1 | Some e \<Rightarrow> attempts e + 1),
         last_attempt = now, success = succ, timestamp = now\<rparr>)"

text \<open>
  \<open>process_location\<close> of map9\_debugging/preprocess\_locations.py (map8 has the same body):
  the row is looked up with \<open>WHERE location_hash = ? AND success = 1\<close>; a hit returns
  \<open>True\<close> at once; otherwise the geocoder is called and the outcome is written back.
  \<open>now\<close> is the reading of \<open>CURRENT_TIMESTAMP\<close> during the call.
\<close>

definition select_success :: "locations \<Rightarrow> string \<Rightarrow> (real option \<times> real option) option" where
  "select_success db location_hash =
     (case db location_hash of
        None \<Rightarrow> None
      | Some e \<Rightarrow> if success e then Some (latitude e, longitude e) else None)"

definition process_location ::
  "(string \<Rightarrow> string) \<Rightarrow> 'g geocoder \<Rightarrow> nat \<Rightarrow> string \<Rightarrow> locations \<times> 'g \<Rightarrow> bool \<times> locations \<times> 'g" where
  "process_location md5 geocode now loc st =
     (let db = fst st; g = snd st;
          location_hash = get_location_hash md5 loc
      in case select_success db location_hash of
           Some result \<Rightarrow> (True, db, g)
         | None \<Rightarrow>
             (let r = geocode loc g;
                  lat = fst (fst r); lon = snd (fst r);
                  succ = (lat \<noteq> None \<and> lon \<noteq> None)
              in (succ, insert_or_replace now location_hash loc lat lon succ db, snd r)))"

text \<open>
  \<open>process_batch\<close> runs \<open>process_location\<close> over its locations in order. Each location is
  paired here with the clock reading of its database write.
\<close>

fun process_batch ::
  "(string \<Rightarrow> string) \<Rightarrow> 'g geocoder \<Rightarrow> (string \<times> nat) list \<Rightarrow> locations \<times> 'g \<Rightarrow> locations \<times> 'g" where
  "process_batch md5 geocode [] st = st"
| "process_batch md5 geocode ((loc, now) # rest) st =
     process_batch md5 geocode rest (snd (process_location md5 geocode now loc st))"

text \<open>
  What a geocoding service does with one HTTP request, as the scripts see it: a JSON body
  listing the places found (latitude and longitude of each, in order), an HTTP error status
  raised by \<open>raise_for_status\<close>, or any other exception raised inside the \<open>try\<close> block
  (a timeout, a connection error, a body that does not parse or lacks a key).
\<close>

datatype response = Body "(real \<times> real) list" | HTTPError nat | Other_error

text \<open>
  \<open>HereGeocoder.geocode\<close> of map9\_debugging: one GET per call, every exception caught,
  logged with \<open>logging.error\<close> and turned into \<open>(None, None)\<close>. The service is a
  parameter: \<open>service n q\<close> answers the request number \<open>n\<close> of the run, asked about \<open>q\<close>.
  The geocoder state keeps the requests sent and the error lines logged. The lock and the
  sleep of \<open>_rate_limit\<close> only delay the request and are not part of the model.
\<close>

record here_geocoder =
  requests :: "string list"
  error_log :: "string list"

definition here_geocode :: "(nat \<Rightarrow> string \<Rightarrow> response) \<Rightarrow> here_geocoder geocoder" where
  "here_geocode service loc g =
     (let g1 = g\<lparr>requests := requests g @ [loc]\<rparr>
      in case service (length (requests g)) loc of
           Body [] \<Rightarrow> ((None, None), g1)
         | Body (position # _) \<Rightarrow> ((Some (fst position), Some (snd position)), g1)
         | HTTPError status \<Rightarrow> ((None, None), g1\<lparr>error_log := error_log g1 @ [loc]\<rparr>)
         | Other_error \<Rightarrow> ((None, None), g1\<lparr>error_log := error_log g1 @ [loc]\<rparr>))"

text \<open>
  \<open>GeocodingService.geocode\<close> of map8: one call of the rate-limited Nominatim geocoder
  \<open>self.nominatim\<close>, which returns a location, returns \<open>None\<close>, or raises. The body catches
  every \<open>Exception\<close> itself, so the \<open>backoff.on_exception\<close> decorator around it never sees
  one and never calls the body a second time. The state is the same request and error log.
\<close>

datatype nominatim_result = Location real real | No_location | Geocoder_error

definition geocoding_service_geocode :: "(nat \<Rightarrow> string \<Rightarrow> nominatim_result) \<Rightarrow> here_geocoder geocoder" where
  "geocoding_service_geocode nominatim loc g =
     (let g1 = g\<lparr>requests := requests g @ [loc]\<rparr>
      in case nominatim (length (requests g)) loc of
           Location lat lon \<Rightarrow> ((Some lat, Some lon), g1)
         | No_location \<Rightarrow> ((None, None), g1)
         | Geocoder_error \<Rightarrow> ((None, None), g1\<lparr>error_log := error_log g1 @ [loc]\<rparr>))"

text \<open>
  The rendering scripts open \<open>locations.db\<close> themselves and do not create the table.
  \<open>sqlite3.connect\<close> makes an empty database file when there is none, so the connection
  they query is either one on which the \<open>SELECT\<close> runs, or one on which it raises
  \<open>sqlite3.Error\<close> (no such table, for a start).
\<close>

datatype database = Unavailable | Available locations

datatype sqlite_error = Sqlite_error

text \<open>
  \<open>get_cached_coordinates\<close> of map8/crime\_data\_with\_cache.py: the row is selected by its
  hash alone; \<open>fetchone()\<close> gives a pair, which is truthy whatever it holds, or \<open>None\<close>.
  There is no \<open>try\<close> around the query.
\<close>

definition get_cached_coordinates ::
  "(string \<Rightarrow> string) \<Rightarrow> string \<Rightarrow> database \<Rightarrow> sqlite_error + (real option \<times> real option)" where
  "get_cached_coordinates md5 loc conn =
     (case conn of
        Unavailable \<Rightarrow> Inl Sqlite_error
      | Available db \<Rightarrow>
          Inr (case db (md5 loc) of
                 Some e \<Rightarrow> (latitude e, longitude e)
               | None \<Rightarrow> (None, None)))"

text \<open>
  \<open>get_coordinates\<close> of map9\_debugging/create\_map.py: the same lookup with
  \<open>AND success = 1\<close>, inside \<open>try\<close>; a \<open>sqlite3.Error\<close> is logged and answered with
  \<open>(None, None)\<close>.
\<close>

definition get_coordinates ::
  "(string \<Rightarrow> string) \<Rightarrow> string \<Rightarrow> database \<Rightarrow> real option \<times> real option" where
  "get_coordinates md5 loc cursor =
     (case cursor of
        Unavailable \<Rightarrow> (None, None)
      | Available db \<Rightarrow>
          (case select_success db (md5 loc) of
             Some result \<Rightarrow> result
           | None \<Rightarrow> (None, None)))"

section \<open>The cache of map10 and map11\<close>

text \<open>
  The table \<open>geocoded_locations\<close> has a \<open>UNIQUE\<close> column \<open>location_query\<close> and two
  \<open>NOT NULL\<close> coordinate columns: it is a partial map from the query string to a pair of
  coordinates. There is no success flag and no attempt counter; a row exists only for a
  query that was geocoded. Everything else the functions do is recorded, in order, in a
  trace: reads and writes of the table, HTTP requests, sleeps and the messages printed or
  logged.
\<close>

type_synonym geocoded_locations = "string \<rightharpoonup> real \<times> real"

datatype message =
    Rate_limit_exceeded real
  | Error_geocoding string
  | Unexpected_error string
  | Skipping_empty
  | Cache_hit string
  | Geocoded string
  | No_results string

datatype event =
    Cache_read string
  | Cache_write string
  | Request string
  | Sleep real
  | Log message

record world =
  geocoded :: geocoded_locations
  trace :: "event list"

definition emit :: "event list \<Rightarrow> world \<Rightarrow> world" where
  "emit evs w = w\<lparr>trace := trace w @ evs\<rparr>"

text \<open>\<open>get_cached_lat_long\<close>: \<open>fetchone()\<close>, and \<open>(None, None)\<close> when there is no row.\<close>

definition get_cached_lat_long :: "string \<Rightarrow> world \<Rightarrow> (real option \<times> real option) \<times> world" where
  "get_cached_lat_long location_query w =
     ((case geocoded w location_query of
         Some result \<Rightarrow> (Some (fst result), Some (snd result))
       | None \<Rightarrow> (None, None)),
      emit [Cache_read location_query] w)"

text \<open>\<open>cache_lat_long\<close>: \<open>INSERT OR IGNORE\<close> keeps an existing row as it is.\<close>

definition cache_lat_long :: "string \<Rightarrow> real \<Rightarrow> real \<Rightarrow> world \<Rightarrow> world" where
  "cache_lat_long location_query lat lng w =
     emit [Cache_write location_query]
       (w\<lparr>geocoded := (case geocoded w location_query of
                          None \<Rightarrow> (geocoded w)(location_query \<mapsto> (lat, lng))
                        | Some old \<Rightarrow> geocoded w)\<rparr>)"

text \<open>
  \<open>geocode_location\<close> of map10/preprocessing.py. \<open>answer\<close> is what the service does with
  the request, should one be sent.
\<close>

definition geocode_location :: "response \<Rightarrow> string \<Rightarrow> world \<Rightarrow> (real option \<times> real option) \<times> world" where
  "geocode_location answer location_query w =
     (let c = get_cached_lat_long location_query w; w1 = snd c
      in case fst c of
           (Some lat, Some lng) \<Rightarrow> ((Some lat, Some lng), w1)
         | _ \<Rightarrow>
             (let w2 = emit [Request location_query] w1
              in case answer of
                   Body (p # _) \<Rightarrow>
                     ((Some (fst p), Some (snd p)), cache_lat_long location_query (fst p) (snd p) w2)
                 | Body [] \<Rightarrow> ((None, None), w2)
                 | HTTPError status \<Rightarrow> ((None, None), emit [Log (Error_geocoding location_query)] w2)
                 | Other_error \<Rightarrow> ((None, None), emit [Log (Error_geocoding location_query)] w2)))"

text \<open>
  Python's \<open>str.strip()\<close> removes leading and trailing whitespace. A character is read as
  a code point below 256; these are the ones for which \<open>str.isspace\<close> holds.
\<close>

definition isspace :: "char \<Rightarrow> bool" where
  "isspace c = (of_char c \<in> {9, 10, 11, 12, 13, 28, 29, 30, 31, 32, 133, 160 :: nat})"

definition strip :: "string \<Rightarrow> string" where
  "strip s = rev (dropWhile isspace (rev (dropWhile isspace s)))"

text \<open>
  \<open>geocode_location\<close> of map10/preprocessing2.py (the asynchronous variant): an empty or
  whitespace-only query is skipped with a warning before the cache is read; the result
  carries a success flag.
\<close>

definition geocode_location_async ::
  "response \<Rightarrow> string \<Rightarrow> world \<Rightarrow> (real option \<times> real option \<times> bool) \<times> world" where
  "geocode_location_async answer location_query w =
     (if strip location_query = [] then ((None, None, False), emit [Log Skipping_empty] w)
      else
        (let c = get_cached_lat_long location_query w; w1 = snd c
         in case fst c of
              (Some lat, Some lng) \<Rightarrow>
                ((Some lat, Some lng, True), emit [Log (Cache_hit location_query)] w1)
            | _ \<Rightarrow>
                (let w2 = emit [Request location_query] w1
                 in case answer of
                      Body (p # _) \<Rightarrow>
                        ((Some (fst p), Some (snd p), True),
                         cache_lat_long location_query (fst p) (snd p)
                           (emit [Log (Geocoded location_query)] w2))
                    | Body [] \<Rightarrow> ((None, None, False), emit [Log (No_results location_query)] w2)
                    | HTTPError status \<Rightarrow>
                        ((None, None, False), emit [Log (Error_geocoding location_query)] w2)
                    | Other_error \<Rightarrow>
                        ((None, None, False), emit [Log (Error_geocoding location_query)] w2))))"

text \<open>
  \<open>geocode_location_with_retry\<close> of map11: \<open>for attempt in range(retries)\<close>. Each pass reads
  the cache, sends one request and either returns the first place found (after caching it)
  or goes on to the next pass: silently on an empty body, after printing on an error, and
  after printing and sleeping \<open>RATE_LIMIT * 2 ** attempt\<close> seconds on status 429. When the
  passes are used up it returns \<open>(None, None)\<close>. \<open>service k\<close> is what the service does with
  the request of pass \<open>k\<close>. The semaphore only bounds how many requests are in flight.
\<close>

definition RATE_LIMIT :: real where
  "RATE_LIMIT = 1.5"

definition RETRY_LIMIT :: nat where
  "RETRY_LIMIT = 5"

fun retry_loop ::
  "(nat \<Rightarrow> response) \<Rightarrow> string \<Rightarrow> nat \<Rightarrow> nat \<Rightarrow> world \<Rightarrow> (real option \<times> real option) \<times> world" where
  "retry_loop service location_query attempt 0 w = ((None, None), w)"
| "retry_loop service location_query attempt (Suc remaining) w =
     (let c = get_cached_lat_long location_query w; w1 = snd c
      in case fst c of
           (Some lat, Some lng) \<Rightarrow> ((Some lat, Some lng), w1)
         | _ \<Rightarrow>
             (let w2 = emit [Request location_query] w1
              in case service attempt of
                   Body (p # _) \<Rightarrow>
                     ((Some (fst p), Some (snd p)), cache_lat_long location_query (fst p) (snd p) w2)
                 | Body [] \<Rightarrow> retry_loop service location_query (Suc attempt) remaining w2
                 | HTTPError status \<Rightarrow>
                     (if status = 429
                      then retry_loop service location_query (Suc attempt) remaining
                             (emit [Log (Rate_limit_exceeded (RATE_LIMIT * 2 ^ attempt)),
                                    Sleep (RATE_LIMIT * 2 ^ attempt)] w2)
                      else retry_loop service location_query (Suc attempt) remaining
                             (emit [Log (Error_geocoding location_query)] w2))
                 | Other_error \<Rightarrow>
                     retry_loop service location_query (Suc attempt) remaining
                       (emit [Log (Unexpected_error location_query)] w2)))"

definition geocode_location_with_retry ::
  "(nat \<Rightarrow> response) \<Rightarrow> string \<Rightarrow> nat \<Rightarrow> world \<Rightarrow> (real option \<times> real option) \<times> world" where
  "geocode_location_with_retry service location_query retries w =
     retry_loop service location_query 0 retries w"

text \<open>The sleeps of a trace, in order; and the events of one pass that finds no place.\<close>

fun sleeps :: "event list \<Rightarrow> real list" where
  "sleeps [] = []"
| "sleeps (Sleep d # es) = d # sleeps es"
| "sleeps (e # es) = sleeps es"

definition failed_pass :: "string \<Rightarrow> nat \<Rightarrow> response \<Rightarrow> event list" where
  "failed_pass q attempt r =
     [Cache_read q, Request q] @
     (case r of
        Body ps \<Rightarrow> []
      | HTTPError status \<Rightarrow>
          if status = 429
          then [Log (Rate_limit_exceeded (RATE_LIMIT * 2 ^ attempt)), Sleep (RATE_LIMIT * 2 ^ attempt)]
          else [Log (Error_geocoding q)]
      | Other_error \<Rightarrow> [Log (Unexpected_error q)])"

section \<open>Building the query strings\<close>

text \<open>
  A row of the crime data: the three place columns as pandas reads them from the CSV (an
  empty cell is NaN, here \<open>None\<close>) and the two coordinate columns that map13 adds.
\<close>

record row =
  State_UT_Name :: "string option"
  District :: "string option"
  Police_Station :: "string option"
  Latitude :: "real option"
  Longitude :: "real option"

text \<open>
  \<open>preprocess_data\<close> of map10 and map11:
  \<open>data['Police Station'].fillna('') + ", " + data['District'].fillna('') + ", " +
  data['State/UT Name'].fillna('') + ", India"\<close>.
\<close>

definition fillna :: "string option \<Rightarrow> string" where
  "fillna v = (case v of None \<Rightarrow> [] | Some s \<Rightarrow> s)"

definition location_query :: "row \<Rightarrow> string" where
  "location_query r =
     fillna (Police_Station r) @ '', '' @ fillna (District r) @ '', '' @
     fillna (State_UT_Name r) @ '', India''"

text \<open>
  \<open>preprocess_locations\<close> of map8 and map9\_debugging collects a set of strings: one per
  state that is present, one per row whose district and state are present, one per row
  whose station, district and state are present.
\<close>

definition state_level :: "row list \<Rightarrow> string list" where
  "state_level df =
     List.map_filter (\<lambda>r. case State_UT_Name r of
                            Some state \<Rightarrow> Some (state @ '', India'')
                          | None \<Rightarrow> None) df"

definition district_level :: "row list \<Rightarrow> string list" where
  "district_level df =
     List.map_filter (\<lambda>r. case (District r, State_UT_Name r) of
                            (Some district, Some state) \<Rightarrow>
                              Some (district @ '', '' @ state @ '', India'')
                          | _ \<Rightarrow> None) df"

definition station_level :: "row list \<Rightarrow> string list" where
  "station_level df =
     List.map_filter (\<lambda>r. case (Police_Station r, District r, State_UT_Name r) of
                            (Some station, Some district, Some state) \<Rightarrow>
                              Some (station @ '', '' @ district @ '', '' @ state @ '', India'')
                          | _ \<Rightarrow> None) df"

definition unique_locations :: "row list \<Rightarrow> string set" where
  "unique_locations df = set (state_level df @ district_level df @ station_level df)"

text \<open>
  The key builder as the specification words it: the non-empty fields, joined with
  \<open>", "\<close>, followed by the country. The fields are taken in the order of the scripts
  (station, district, state).
\<close>

fun join :: "string \<Rightarrow> string list \<Rightarrow> string" where
  "join sep [] = []"
| "join sep [x] = x"
| "join sep (x # y # ys) = x @ sep @ join sep (y # ys)"

definition canonical_query_spec :: "row \<Rightarrow> string" where
  "canonical_query_spec r =
     join '', '' (filter (\<lambda>f. f \<noteq> [])
                    [fillna (Police_Station r), fillna (District r), fillna (State_UT_Name r)]
                  @ [''India''])"

section \<open>Matching and approximating coordinates in map13\_final\<close>






text \<open>
  Python's \<open>str\<close> of a cell: the text itself, and \<open>nan\<close> for a missing one. Every row
  starts with both coordinates missing and gets the pair of its key when the dictionary
  has one; the other rows are reported.
\<close>

definition pystr :: "string option \<Rightarrow> string" where
  "pystr v = (case v of None \<Rightarrow> ''nan'' | Some s \<Rightarrow> s)"





text \<open>
  \<open>approximate_missing_locations\<close>: \<open>for index, row in crime_data.iterrows()\<close>. The rows
  are taken from the frame as it was when the loop started; the two selections and the
  writes with \<open>crime_data.at\<close> go to the frame as it is now. \<open>dropna\<close> of the two
  coordinate columns keeps the rows that have both; \<open>mean\<close> is the column mean.
  \<open>district_coords_of\<close> is \<open>district_coords\<close> of the source, the coordinates of the rows
  whose state and district equal the two strings, and \<open>state_coords_of\<close> is \<open>state_coords\<close>.
\<close>

definition coords_of :: "row \<Rightarrow> (real \<times> real) option" where
  "coords_of r =
     (case (Latitude r, Longitude r) of
        (Some lat, Some lon) \<Rightarrow> Some (lat, lon)
      | _ \<Rightarrow> None)"

definition dropna :: "row list \<Rightarrow> (real \<times> real) list" where
  "dropna rows = List.map_filter coords_of rows"

definition mean :: "real list \<Rightarrow> real" where
  "mean xs = sum_list xs / real (length xs)"

definition district_coords_of :: "string \<Rightarrow> string \<Rightarrow> row list \<Rightarrow> (real \<times> real) list" where
  "district_coords_of state district crime_data =
     dropna (filter (\<lambda>x. State_UT_Name x = Some state \<and> District x = Some district) crime_data)"

definition state_coords_of :: "string \<Rightarrow> row list \<Rightarrow> (real \<times> real) list" where
  "state_coords_of state crime_data =
     dropna (filter (\<lambda>x. State_UT_Name x = Some state) crime_data)"

definition approximate_row :: "nat \<Rightarrow> row \<Rightarrow> row list \<Rightarrow> row list" where
  "approximate_row index r crime_data =
     (if Latitude r = None \<or> Longitude r = None
      then (let state = pystr (State_UT_Name r);
                district = pystr (District r);
                district_coords = district_coords_of state district crime_data
            in if district_coords \<noteq> []
               then crime_data[index := (crime_data ! index)
                      \<lparr>Latitude := Some (mean (map fst district_coords)),
                       Longitude := Some (mean (map snd district_coords))\<rparr>]
               else (let state_coords = state_coords_of state crime_data
                     in if state_coords \<noteq> []
                        then crime_data[index := (crime_data ! index)
                               \<lparr>Latitude := Some (mean (map fst state_coords)),
                                Longitude := Some (mean (map snd state_coords))\<rparr>]
                        else crime_data))
      else crime_data)"

fun approximate_loop :: "(nat \<times> row) list \<Rightarrow> row list \<Rightarrow> row list" where
  "approximate_loop [] crime_data = crime_data"
| "approximate_loop ((index, r) # rest) crime_data =
     approximate_loop rest (approximate_row index r crime_data)"

definition approximate_missing_locations :: "row list \<Rightarrow> row list" where
  "approximate_missing_locations crime_data =
     approximate_loop (enumerate 0 crime_data) crime_data"


text \<open>
  What a run of the dashboard can touch: the two database files of the preprocessing
  scripts and the frame in memory. \<open>main\<close> calls
  \<open>crime_data = approximate_missing_locations(crime_data)\<close>; the function opens no
  database.
\<close>

record process_state =
  locations_db :: locations
  geocoding_cache_db :: geocoded_locations
  crime_data_frame :: "row list"

definition approximation_step :: "process_state \<Rightarrow> process_state" where
  "approximation_step s = s\<lparr>crime_data_frame := approximate_missing_locations (crime_data_frame s)\<rparr>"

section \<open>Upsert on every attempt that is not a cache hit\<close>



section \<open>The retry loop of map11\<close>

lemma emit_emit: "emit ys (emit xs w) = emit (xs @ ys) w"
  by (simp add: emit_def)

lemma emit_Nil: "emit [] w = w"
  by (simp add: emit_def)

lemma geocoded_emit: "geocoded (emit evs w) = geocoded w"
  by (simp add: emit_def)

lemma trace_emit: "trace (emit evs w) = trace w @ evs"
  by (simp add: emit_def)

lemma sleeps_append: "sleeps (xs @ ys) = sleeps xs @ sleeps ys"
  by (induction xs rule: sleeps.induct) simp_all


lemma retry_loop_failed_pass:
  assumes "geocoded w q = None" and "\<forall>p ps. service attempt \<noteq> Body (p # ps)"
  shows "retry_loop service q attempt (Suc remaining) w =
         retry_loop service q (Suc attempt) remaining (emit (failed_pass q attempt (service attempt)) w)"
proof (cases "service attempt")
  case (Body places)
  with assms(2) have "places = []" by (cases places) auto
  with Body assms(1) show ?thesis
    by (simp add: get_cached_lat_long_def failed_pass_def emit_emit geocoded_emit)
next
  case (HTTPError status)
  with assms(1) show ?thesis
    by (simp add: get_cached_lat_long_def failed_pass_def emit_emit geocoded_emit)
next
  case Other_error
  with assms(1) show ?thesis
    by (simp add: get_cached_lat_long_def failed_pass_def emit_emit geocoded_emit)
qed

lemma retry_loop_all_fail:
  assumes "geocoded w q = None" and "\<forall>k<n. \<forall>p ps. service (a + k) \<noteq> Body (p # ps)"
  shows "retry_loop service q a n w =
         ((None, None), emit (concat (map (\<lambda>k. failed_pass q k (service k)) [a..<a + n])) w)"
  using assms
proof (induction n arbitrary: a w)
  case 0
  then show ?case by (simp add: emit_Nil)
next
  case (Suc n)
  from Suc.prems(2) have here: "\<forall>p ps. service a \<noteq> Body (p # ps)"
    by (metis add.right_neutral zero_less_Suc)
  from Suc.prems(2) have later: "\<forall>k<n. \<forall>p ps. service (Suc a + k) \<noteq> Body (p # ps)"
    by (metis Suc_less_eq add_Suc_shift)
  have unc: "geocoded (emit (failed_pass q a (service a)) w) q = None"
    using Suc.prems(1) by (simp add: geocoded_emit)
  have "retry_loop service q a (Suc n) w =
        retry_loop service q (Suc a) n (emit (failed_pass q a (service a)) w)"
    using retry_loop_failed_pass [of w q service a n] Suc.prems(1) here by blast
  also have "\<dots> = ((None, None),
      emit (concat (map (\<lambda>k. failed_pass q k (service k)) [Suc a..<Suc a + n]))
        (emit (failed_pass q a (service a)) w))"
    using Suc.IH [of "emit (failed_pass q a (service a)) w" "Suc a"] unc later by blast
  also have "\<dots> = ((None, None),
      emit (concat (map (\<lambda>k. failed_pass q k (service k)) [a..<a + Suc n])) w)"
  proof -
    have "[a..<a + Suc n] = a # [Suc a..<Suc a + n]"
      using upt_conv_Cons [of a "a + Suc n"] by simp
    then show ?thesis by (simp only: emit_emit list.map concat.simps)
  qed
  finally show ?case .
qed


lemma sleeps_failed_passes:
  "sleeps (concat (map (\<lambda>k. failed_pass q k (service k)) ks)) =
   [RATE_LIMIT * 2 ^ k. k \<leftarrow> ks, service k = HTTPError 429]"
proof (induction ks)
  case Nil
  then show ?case by simp
next
  case (Cons k ks)
  then show ?case
    by (cases "service k") (simp_all add: failed_pass_def sleeps_append)
qed

lemma requests_failed_passes:
  "count_list (concat (map (\<lambda>k. failed_pass q k (service k)) ks)) (Request q) = length ks"
proof (induction ks)
  case Nil
  then show ?case by simp
next
  case (Cons k ks)
  then show ?case
    by (cases "service k") (simp_all add: failed_pass_def)
qed

text \<open>
  C5. In \<open>geocode_location_with_retry\<close> (map11) a pass that receives HTTP 429 sleeps
  \<open>RATE_LIMIT * 2 ^ attempt\<close> seconds and goes on to the next pass. When every one of the
  \<open>retries\<close> passes receives 429, the call has sent \<open>retries\<close> requests, has slept
  \<open>RATE_LIMIT * 2 ^ 0\<close>, ..., \<open>RATE_LIMIT * 2 ^ (retries - 1)\<close>, returns \<open>(None, None)\<close> and
  leaves the table as it was, so the query is still uncached and a later run asks again.
  The default \<open>retries\<close> is \<open>RETRY_LIMIT = 5\<close>.
\<close>

theorem rate_limit_backoff:
  assumes "geocoded w q = None"
  shows "(service attempt = HTTPError 429 \<longrightarrow>
            retry_loop service q attempt (Suc remaining) w =
            retry_loop service q (Suc attempt) remaining
              (emit [Cache_read q, Request q,
                     Log (Rate_limit_exceeded (RATE_LIMIT * 2 ^ attempt)),
                     Sleep (RATE_LIMIT * 2 ^ attempt)] w))
       \<and> ((\<forall>k<retries. service k = HTTPError 429) \<longrightarrow>
            fst (geocode_location_with_retry service q retries w) = (None, None)
          \<and> geocoded (snd (geocode_location_with_retry service q retries w)) = geocoded w
          \<and> count_list (trace (snd (geocode_location_with_retry service q retries w))) (Request q)
              = count_list (trace w) (Request q) + retries
          \<and> sleeps (trace (snd (geocode_location_with_retry service q retries w)))
              = sleeps (trace w) @ map (\<lambda>attempt. RATE_LIMIT * 2 ^ attempt) [0..<retries])"
proof (intro conjI impI)
  assume r: "service attempt = HTTPError 429"
  then have "\<forall>p ps. service attempt \<noteq> Body (p # ps)" by simp
  with assms have "retry_loop service q attempt (Suc remaining) w =
      retry_loop service q (Suc attempt) remaining (emit (failed_pass q attempt (service attempt)) w)"
    using retry_loop_failed_pass [of w q service attempt remaining] by blast
  with r show "retry_loop service q attempt (Suc remaining) w =
      retry_loop service q (Suc attempt) remaining
        (emit [Cache_read q, Request q,
               Log (Rate_limit_exceeded (RATE_LIMIT * 2 ^ attempt)),
               Sleep (RATE_LIMIT * 2 ^ attempt)] w)"
    by (simp add: failed_pass_def)
next
  assume all: "\<forall>k<retries. service k = HTTPError 429"
  then have "\<forall>k<retries. \<forall>p ps. service (0 + k) \<noteq> Body (p # ps)" by simp
  with assms have run: "geocode_location_with_retry service q retries w =
      ((None, None), emit (concat (map (\<lambda>k. failed_pass q k (service k)) [0..<0 + retries])) w)"
    unfolding geocode_location_with_retry_def
    using retry_loop_all_fail [of w q retries service 0] by blast
  show "fst (geocode_location_with_retry service q retries w) = (None, None)"
    by (simp add: run)
  show "geocoded (snd (geocode_location_with_retry service q retries w)) = geocoded w"
    by (simp add: run geocoded_emit)
  show "count_list (trace (snd (geocode_location_with_retry service q retries w))) (Request q)
      = count_list (trace w) (Request q) + retries"
    by (simp add: run trace_emit requests_failed_passes)
  have "[RATE_LIMIT * 2 ^ k. k \<leftarrow> [0..<retries], service k = HTTPError 429]
      = map (\<lambda>attempt. RATE_LIMIT * 2 ^ attempt) [0..<retries]"
    using all by (induction retries) simp_all
  then show "sleeps (trace (snd (geocode_location_with_retry service q retries w)))
      = sleeps (trace w) @ map (\<lambda>attempt. RATE_LIMIT * 2 ^ attempt) [0..<retries]"
    by (simp add: run trace_emit sleeps_append sleeps_failed_passes)
qed

theorem rate_limit_backoff_witness:
  "fst (geocode_location_with_retry (\<lambda>k. HTTPError 429) ''Camp, Pune, India'' RETRY_LIMIT
         \<lparr>geocoded = Map.empty, trace = []\<rparr>) = (None, None)
   \<and> geocoded (snd (geocode_location_with_retry (\<lambda>k. HTTPError 429) ''Camp, Pune, India'' RETRY_LIMIT
         \<lparr>geocoded = Map.empty, trace = []\<rparr>)) ''Camp, Pune, India'' = None
   \<and> count_list (trace (snd (geocode_location_with_retry (\<lambda>k. HTTPError 429) ''Camp, Pune, India''
         RETRY_LIMIT \<lparr>geocoded = Map.empty, trace = []\<rparr>))) (Request ''Camp, Pune, India'') = 5
   \<and> sleeps (trace (snd (geocode_location_with_retry (\<lambda>k. HTTPError 429) ''Camp, Pune, India''
         RETRY_LIMIT \<lparr>geocoded = Map.empty, trace = []\<rparr>))) = [1.5, 3, 6, 12, 24]"
proof -
  have unc: "geocoded \<lparr>geocoded = Map.empty, trace = []\<rparr> ''Camp, Pune, India'' = None"
    by simp
  have up: "[0..<RETRY_LIMIT] = [0, 1, 2, 3, 4]"
    by (simp add: RETRY_LIMIT_def upt_rec)
  from rate_limit_backoff [OF unc, of "\<lambda>k. HTTPError 429" 0 0 RETRY_LIMIT]
  show ?thesis
    by (simp add: up RATE_LIMIT_def) (simp add: RETRY_LIMIT_def)
qed

lemma error_logs_failed_passes:
  assumes "\<forall>k\<in>set ks. service k = Other_error \<or> (\<exists>status. status \<noteq> 429 \<and> service k = HTTPError status)"
  shows "count_list (concat (map (\<lambda>k. failed_pass q k (service k)) ks)) (Log (Error_geocoding q))
       + count_list (concat (map (\<lambda>k. failed_pass q k (service k)) ks)) (Log (Unexpected_error q))
       = length ks"
  using assms
proof (induction ks)
  case Nil
  then show ?case by simp
next
  case (Cons k ks)
  then show ?case
    by (cases "service k") (auto simp add: failed_pass_def)
qed

text \<open>
  C6, as stated, fails on map11: a transport error that is not HTTP 429 does not end the
  call. With a service that times out on every request, the default five passes send five
  requests.
\<close>

theorem transport_error_uses_retry_budget:
  "count_list (trace (snd (geocode_location_with_retry (\<lambda>k. Other_error) ''Camp, Pune, India''
       RETRY_LIMIT \<lparr>geocoded = Map.empty, trace = []\<rparr>))) (Request ''Camp, Pune, India'') = 5"
  by (simp add: geocode_location_with_retry_def RETRY_LIMIT_def eval_nat_numeral
      get_cached_lat_long_def emit_def)

text \<open>
  C6, amended. In \<open>geocode_location_with_retry\<close> (map11) a transport error other than
  HTTP 429 is printed and uses up one pass of the loop without any sleep; the loop goes on,
  so when every pass fails this way the call has sent \<open>retries\<close> requests, has printed
  \<open>retries\<close> errors, returns \<open>(None, None)\<close> and has cached nothing. It always returns, so
  the batch goes on. In map9 (\<open>HereGeocoder.geocode\<close>) and map8
  (\<open>GeocodingService.geocode\<close>) every exception is caught after the single request of the
  call, logged, and turned into \<open>(None, None)\<close>.
\<close>

theorem transport_error_handling:
  assumes "geocoded w q = None"
    and "\<forall>k<retries. service k = Other_error \<or> (\<exists>status. status \<noteq> 429 \<and> service k = HTTPError status)"
  shows "fst (geocode_location_with_retry service q retries w) = (None, None)
       \<and> geocoded (snd (geocode_location_with_retry service q retries w)) = geocoded w
       \<and> count_list (trace (snd (geocode_location_with_retry service q retries w))) (Request q)
           = count_list (trace w) (Request q) + retries
       \<and> count_list (trace (snd (geocode_location_with_retry service q retries w))) (Log (Error_geocoding q))
         + count_list (trace (snd (geocode_location_with_retry service q retries w))) (Log (Unexpected_error q))
           = count_list (trace w) (Log (Error_geocoding q))
             + count_list (trace w) (Log (Unexpected_error q)) + retries
       \<and> sleeps (trace (snd (geocode_location_with_retry service q retries w))) = sleeps (trace w)
       \<and> (here (length (requests g)) loc = Other_error
            \<or> here (length (requests g)) loc = HTTPError status' \<longrightarrow>
          here_geocode here loc g =
            ((None, None), \<lparr>requests = requests g @ [loc], error_log = error_log g @ [loc]\<rparr>))
       \<and> (nominatim (length (requests g)) loc = Geocoder_error \<longrightarrow>
          geocoding_service_geocode nominatim loc g =
            ((None, None), \<lparr>requests = requests g @ [loc], error_log = error_log g @ [loc]\<rparr>))"
proof -
  from assms(2) have "\<forall>k<retries. \<forall>p ps. service (0 + k) \<noteq> Body (p # ps)" by auto
  with assms(1) have run: "geocode_location_with_retry service q retries w =
      ((None, None), emit (concat (map (\<lambda>k. failed_pass q k (service k)) [0..<0 + retries])) w)"
    unfolding geocode_location_with_retry_def
    using retry_loop_all_fail [of w q retries service 0] by blast
  have errs: "\<forall>k\<in>set [0..<retries]. service k = Other_error
      \<or> (\<exists>status. status \<noteq> 429 \<and> service k = HTTPError status)"
    using assms(2) by simp
  have no429: "[RATE_LIMIT * 2 ^ k. k \<leftarrow> [0..<retries], service k = HTTPError 429] = []"
    using assms(2) by (induction retries) auto
  have map11: "fst (geocode_location_with_retry service q retries w) = (None, None)
       \<and> geocoded (snd (geocode_location_with_retry service q retries w)) = geocoded w
       \<and> count_list (trace (snd (geocode_location_with_retry service q retries w))) (Request q)
           = count_list (trace w) (Request q) + retries
       \<and> count_list (trace (snd (geocode_location_with_retry service q retries w))) (Log (Error_geocoding q))
         + count_list (trace (snd (geocode_location_with_retry service q retries w))) (Log (Unexpected_error q))
           = count_list (trace w) (Log (Error_geocoding q))
             + count_list (trace w) (Log (Unexpected_error q)) + retries
       \<and> sleeps (trace (snd (geocode_location_with_retry service q retries w))) = sleeps (trace w)"
    using error_logs_failed_passes [OF errs, of q]
    by (simp add: run geocoded_emit trace_emit requests_failed_passes sleeps_append
        sleeps_failed_passes no429)
  have map9: "here (length (requests g)) loc = Other_error
            \<or> here (length (requests g)) loc = HTTPError status' \<longrightarrow>
          here_geocode here loc g =
            ((None, None), \<lparr>requests = requests g @ [loc], error_log = error_log g @ [loc]\<rparr>)"
    by (auto simp add: here_geocode_def)
  have map8: "nominatim (length (requests g)) loc = Geocoder_error \<longrightarrow>
          geocoding_service_geocode nominatim loc g =
            ((None, None), \<lparr>requests = requests g @ [loc], error_log = error_log g @ [loc]\<rparr>)"
    by (auto simp add: geocoding_service_geocode_def)
  from map11 map9 map8 show ?thesis by blast
qed

theorem transport_error_handling_witness:
  "fst (geocode_location_with_retry (\<lambda>k. if k = 0 then Other_error else HTTPError 500)
          ''Camp, Pune, India'' RETRY_LIMIT \<lparr>geocoded = Map.empty, trace = []\<rparr>) = (None, None)
   \<and> count_list (trace (snd (geocode_location_with_retry
          (\<lambda>k. if k = 0 then Other_error else HTTPError 500)
          ''Camp, Pune, India'' RETRY_LIMIT \<lparr>geocoded = Map.empty, trace = []\<rparr>)))
        (Request ''Camp, Pune, India'') = 5
   \<and> sleeps (trace (snd (geocode_location_with_retry
          (\<lambda>k. if k = 0 then Other_error else HTTPError 500)
          ''Camp, Pune, India'' RETRY_LIMIT \<lparr>geocoded = Map.empty, trace = []\<rparr>))) = []
   \<and> here_geocode (\<lambda>n q. Other_error) ''Camp, Pune, India'' \<lparr>requests = [], error_log = []\<rparr>
       = ((None, None), \<lparr>requests = [''Camp, Pune, India''], error_log = [''Camp, Pune, India'']\<rparr>)
   \<and> geocoding_service_geocode (\<lambda>n q. Geocoder_error) ''Camp, Pune, India''
         \<lparr>requests = [], error_log = []\<rparr>
       = ((None, None), \<lparr>requests = [''Camp, Pune, India''], error_log = [''Camp, Pune, India'']\<rparr>)"
proof -
  have unc: "geocoded \<lparr>geocoded = Map.empty, trace = []\<rparr> ''Camp, Pune, India'' = None"
    by simp
  have errs: "\<forall>k<RETRY_LIMIT. (if k = 0 then Other_error else HTTPError 500) = Other_error
      \<or> (\<exists>status. status \<noteq> 429 \<and> (if k = 0 then Other_error else HTTPError 500) = HTTPError status)"
    by simp
  from transport_error_handling [OF unc errs,
      of "\<lambda>n q. Other_error" "\<lparr>requests = [], error_log = []\<rparr>" "''Camp, Pune, India''" 500
         "\<lambda>n q. Geocoder_error"]
  show ?thesis
    by (simp add: RETRY_LIMIT_def)
qed

section \<open>A warm cache sends no request\<close>

lemma process_location_hit:
  assumes "db (get_location_hash md5 loc) = Some e" and "success e"
  shows "process_location md5 geocode now loc (db, g) = (True, db, g)"
  using assms by (simp add: process_location_def select_success_def)

lemma process_batch_warm:
  assumes "\<forall>loc\<in>fst ` set batch. \<exists>e. db (get_location_hash md5 loc) = Some e \<and> success e"
  shows "process_batch md5 geocode batch (db, g) = (db, g)"
  using assms
proof (induction batch)
  case Nil
  then show ?case by simp
next
  case (Cons x batch)
  obtain loc now where x: "x = (loc, now)" by (cases x)
  from Cons.prems x obtain e where "db (get_location_hash md5 loc) = Some e" "success e"
    by auto
  then have "process_location md5 geocode now loc (db, g) = (True, db, g)"
    by (rule process_location_hit)
  moreover from Cons have "process_batch md5 geocode batch (db, g) = (db, g)" by simp
  ultimately show ?case by (simp add: x)
qed

text \<open>
  C1. A query with a successful row under its hash makes \<open>process_location\<close> return
  \<open>True\<close> with the table and the geocoder untouched, whatever the geocoder is: its method
  is not called, so no request leaves; the cached coordinates stay what \<open>get_coordinates\<close>
  reads back. A batch whose locations all have such a row leaves table and geocoder as
  they were; with the HERE geocoder the list of requests sent does not grow. In map10,
  \<open>geocode_location\<close> returns the coordinates of the cached row after one read of the
  table and sends no request.
\<close>

theorem warm_cache_sends_no_request:
  "(db (get_location_hash md5 loc) = Some e \<and> success e \<longrightarrow>
      process_location md5 geocode now loc (db, g) = (True, db, g)
    \<and> get_coordinates md5 loc (Available db) = (latitude e, longitude e))
   \<and> ((\<forall>loc\<in>fst ` set batch. \<exists>e. db (get_location_hash md5 loc) = Some e \<and> success e) \<longrightarrow>
      process_batch md5 geocode batch (db, g) = (db, g)
    \<and> requests (snd (process_batch md5 (here_geocode service) batch (db, h))) = requests h)
   \<and> (geocoded w q = Some (lat, lng) \<longrightarrow>
      geocode_location answer q w = ((Some lat, Some lng), emit [Cache_read q] w)
    \<and> count_list (trace (snd (geocode_location answer q w))) (Request q)
        = count_list (trace w) (Request q))"
proof (intro conjI impI)
  assume a: "db (get_location_hash md5 loc) = Some e \<and> success e"
  then show "process_location md5 geocode now loc (db, g) = (True, db, g)"
    by (simp add: process_location_hit)
  from a show "get_coordinates md5 loc (Available db) = (latitude e, longitude e)"
    by (simp add: get_coordinates_def select_success_def get_location_hash_def)
next
  assume a: "\<forall>loc\<in>fst ` set batch. \<exists>e. db (get_location_hash md5 loc) = Some e \<and> success e"
  then show "process_batch md5 geocode batch (db, g) = (db, g)"
    by (rule process_batch_warm)
  from a have "process_batch md5 (here_geocode service) batch (db, h) = (db, h)"
    by (rule process_batch_warm)
  then show "requests (snd (process_batch md5 (here_geocode service) batch (db, h))) = requests h"
    by simp
next
  assume a: "geocoded w q = Some (lat, lng)"
  then show "geocode_location answer q w = ((Some lat, Some lng), emit [Cache_read q] w)"
    by (simp add: geocode_location_def get_cached_lat_long_def)
  then show "count_list (trace (snd (geocode_location answer q w))) (Request q)
        = count_list (trace w) (Request q)"
    by (simp add: trace_emit)
qed

theorem warm_cache_sends_no_request_witness:
  "process_batch (\<lambda>s. s) (here_geocode (\<lambda>n q. Body [(0, 0)]))
      [(''Colaba, Mumbai, MH, India'', 7), (''Colaba, Mumbai, MH, India'', 8)]
      ([''Colaba, Mumbai, MH, India'' \<mapsto>
          \<lparr>location_string = ''Colaba, Mumbai, MH, India'', latitude = Some 18.9,
           longitude = Some 72.8, attempts = 1, last_attempt = 3, success = True, timestamp = 3\<rparr>],
       \<lparr>requests = [], error_log = []\<rparr>)
    = ([''Colaba, Mumbai, MH, India'' \<mapsto>
          \<lparr>location_string = ''Colaba, Mumbai, MH, India'', latitude = Some 18.9,
           longitude = Some 72.8, attempts = 1, last_attempt = 3, success = True, timestamp = 3\<rparr>],
       \<lparr>requests = [], error_log = []\<rparr>)
   \<and> get_coordinates (\<lambda>s. s) ''Colaba, Mumbai, MH, India''
        (Available [''Colaba, Mumbai, MH, India'' \<mapsto>
          \<lparr>location_string = ''Colaba, Mumbai, MH, India'', latitude = Some 18.9,
           longitude = Some 72.8, attempts = 1, last_attempt = 3, success = True, timestamp = 3\<rparr>])
      = (Some 18.9, Some 72.8)
   \<and> geocode_location (Body [(0, 0)]) ''Colaba, Mumbai, MH, India''
        \<lparr>geocoded = [''Colaba, Mumbai, MH, India'' \<mapsto> (18.9, 72.8)], trace = []\<rparr>
      = ((Some 18.9, Some 72.8),
         emit [Cache_read ''Colaba, Mumbai, MH, India'']
           \<lparr>geocoded = [''Colaba, Mumbai, MH, India'' \<mapsto> (18.9, 72.8)], trace = []\<rparr>)"
proof -
  let ?e = "\<lparr>location_string = ''Colaba, Mumbai, MH, India'', latitude = Some 18.9,
           longitude = Some 72.8, attempts = 1, last_attempt = 3, success = True, timestamp = 3\<rparr>"
  let ?db = "[''Colaba, Mumbai, MH, India'' \<mapsto> ?e]"
  let ?batch = "[(''Colaba, Mumbai, MH, India'', 7::nat), (''Colaba, Mumbai, MH, India'', 8)]"
  let ?w = "\<lparr>geocoded = [''Colaba, Mumbai, MH, India'' \<mapsto> (18.9, 72.8)], trace = []\<rparr>"
  have hit: "?db (get_location_hash (\<lambda>s. s) ''Colaba, Mumbai, MH, India'') = Some ?e \<and> success ?e"
    by (simp add: get_location_hash_def)
  have warm: "\<forall>loc\<in>fst ` set ?batch. \<exists>e. ?db (get_location_hash (\<lambda>s. s) loc) = Some e \<and> success e"
    by (simp add: get_location_hash_def)
  have cached: "geocoded ?w ''Colaba, Mumbai, MH, India'' = Some (18.9, 72.8)"
    by simp
  have coords: "(latitude ?e, longitude ?e) = (Some 18.9, Some 72.8)"
    by simp
  from warm_cache_sends_no_request
    [of ?db "\<lambda>s. s" "''Colaba, Mumbai, MH, India''" ?e
        "here_geocode (\<lambda>n q. Body [(0, 0)])" 7 "\<lparr>requests = [], error_log = []\<rparr>"
        ?batch "\<lambda>n q. Body [(0, 0)]" "\<lparr>requests = [], error_log = []\<rparr>"
        ?w "''Colaba, Mumbai, MH, India''" "18.9" "72.8" "Body [(0, 0)]"]
    hit warm cached coords
  show ?thesis
    by metis
qed

section \<open>Reading the cache back for rendering\<close>

text \<open>
  C10, as stated, fails in its last part: \<open>get_cached_coordinates\<close> has no handler around
  its query, so on a connection whose \<open>SELECT\<close> fails (the database file that
  \<open>sqlite3.connect\<close> has just created holds no table \<open>locations\<close>) the error of sqlite3
  leaves the function.
\<close>

theorem get_cached_coordinates_raises:
  "get_cached_coordinates (\<lambda>s. s) ''MH, India'' Unavailable = Inl Sqlite_error"
  by (simp add: get_cached_coordinates_def)

text \<open>
  C10, amended. On a connection whose query runs, \<open>get_cached_coordinates\<close> (map8) returns
  the stored pair of the row under the hash whatever its success flag is, hence the stored
  nulls of a failed row, and \<open>(None, None)\<close> when there is no row; when the query fails it
  raises. \<open>get_coordinates\<close> (map9) returns the stored pair only of a row with
  \<open>success = 1\<close>, and \<open>(None, None)\<close> otherwise, also when the query fails.
\<close>

theorem render_side_lookup:
  "(db (md5 loc) = Some e \<longrightarrow>
      get_cached_coordinates md5 loc (Available db) = Inr (latitude e, longitude e)
    \<and> get_coordinates md5 loc (Available db)
        = (if success e then (latitude e, longitude e) else (None, None)))
   \<and> (db (md5 loc) = None \<longrightarrow>
      get_cached_coordinates md5 loc (Available db) = Inr (None, None)
    \<and> get_coordinates md5 loc (Available db) = (None, None))
   \<and> get_cached_coordinates md5 loc Unavailable = Inl Sqlite_error
   \<and> get_coordinates md5 loc Unavailable = (None, None)"
  by (simp add: get_cached_coordinates_def get_coordinates_def select_success_def)

theorem render_side_lookup_witness:
  "get_cached_coordinates (\<lambda>s. s) ''MH, India''
     (Available [''MH, India'' \<mapsto>
        \<lparr>location_string = ''MH, India'', latitude = None, longitude = None,
         attempts = 2, last_attempt = 3, success = False, timestamp = 3\<rparr>]) = Inr (None, None)
   \<and> get_coordinates (\<lambda>s. s) ''MH, India''
     (Available [''MH, India'' \<mapsto>
        \<lparr>location_string = ''MH, India'', latitude = None, longitude = None,
         attempts = 2, last_attempt = 3, success = False, timestamp = 3\<rparr>]) = (None, None)
   \<and> get_cached_coordinates (\<lambda>s. s) ''Goa, India''
     (Available [''MH, India'' \<mapsto>
        \<lparr>location_string = ''MH, India'', latitude = None, longitude = None,
         attempts = 2, last_attempt = 3, success = False, timestamp = 3\<rparr>]) = Inr (None, None)"
proof -
  let ?e = "\<lparr>location_string = ''MH, India'', latitude = None, longitude = None,
         attempts = 2, last_attempt = 3, success = False, timestamp = 3\<rparr>"
  let ?db = "[''MH, India'' \<mapsto> ?e]"
  have row: "?db ((\<lambda>s. s) ''MH, India'') = Some ?e" by simp
  have norow: "?db ((\<lambda>s. s) ''Goa, India'') = None" by simp
  from render_side_lookup [of ?db "\<lambda>s. s" "''MH, India''" ?e] row
  have "get_cached_coordinates (\<lambda>s. s) ''MH, India'' (Available ?db) = Inr (latitude ?e, longitude ?e)"
    and "get_coordinates (\<lambda>s. s) ''MH, India'' (Available ?db)
        = (if success ?e then (latitude ?e, longitude ?e) else (None, None))"
    by blast+
  moreover from render_side_lookup [of ?db "\<lambda>s. s" "''Goa, India''" ?e] norow
  have "get_cached_coordinates (\<lambda>s. s) ''Goa, India'' (Available ?db) = Inr (None, None)"
    by blast
  ultimately show ?thesis by simp
qed

section \<open>The query strings\<close>

lemma strip_Nil_iff: "strip s = [] \<longleftrightarrow> (\<forall>c\<in>set s. isspace c)"
proof
  assume "strip s = []"
  then have "dropWhile isspace (rev (dropWhile isspace s)) = []"
    by (simp add: strip_def)
  then have "\<forall>c\<in>set (rev (dropWhile isspace s)). isspace c"
    by (simp only: dropWhile_eq_Nil_conv)
  then have all: "\<forall>c\<in>set (dropWhile isspace s). isspace c"
    by simp
  have "dropWhile isspace s = []"
  proof (rule ccontr)
    assume ne: "dropWhile isspace s \<noteq> []"
    then have "\<not> isspace (hd (dropWhile isspace s))" by (rule hd_dropWhile)
    moreover from ne have "hd (dropWhile isspace s) \<in> set (dropWhile isspace s)"
      by (rule hd_in_set)
    ultimately show False using all by blast
  qed
  then show "\<forall>c\<in>set s. isspace c" by (simp only: dropWhile_eq_Nil_conv)
next
  assume "\<forall>c\<in>set s. isspace c"
  then have dw: "dropWhile isspace s = []" by (simp only: dropWhile_eq_Nil_conv)
  show "strip s = []" unfolding strip_def dw by simp
qed

lemma location_query_join:
  "location_query r =
     join '', '' [fillna (Police_Station r), fillna (District r), fillna (State_UT_Name r), ''India'']"
  by (simp add: location_query_def)

lemma length_location_query:
  "length (location_query r) =
     length (fillna (Police_Station r)) + length (fillna (District r))
     + length (fillna (State_UT_Name r)) + 11"
  by (simp add: location_query_def)

lemma length_canonical_query_spec:
  "length (canonical_query_spec r) =
     length (fillna (Police_Station r)) + length (fillna (District r))
     + length (fillna (State_UT_Name r))
     + 2 * length (filter (\<lambda>f. f \<noteq> [])
         [fillna (Police_Station r), fillna (District r), fillna (State_UT_Name r)]) + 5"
  by (simp add: canonical_query_spec_def)

lemma location_query_canonical_iff:
  "location_query r = canonical_query_spec r \<longleftrightarrow>
     fillna (Police_Station r) \<noteq> [] \<and> fillna (District r) \<noteq> [] \<and> fillna (State_UT_Name r) \<noteq> []"
proof
  assume "location_query r = canonical_query_spec r"
  then have "length (location_query r) = length (canonical_query_spec r)" by simp
  then show "fillna (Police_Station r) \<noteq> [] \<and> fillna (District r) \<noteq> [] \<and> fillna (State_UT_Name r) \<noteq> []"
    unfolding length_location_query length_canonical_query_spec
    by (auto split: if_splits)
next
  assume "fillna (Police_Station r) \<noteq> [] \<and> fillna (District r) \<noteq> [] \<and> fillna (State_UT_Name r) \<noteq> []"
  then show "location_query r = canonical_query_spec r"
    by (simp add: location_query_def canonical_query_spec_def)
qed

lemma location_query_not_blank: "strip (location_query r) \<noteq> []"
proof -
  have "CHR ''I'' \<in> set (location_query r)" by (simp add: location_query_def)
  moreover have "\<not> isspace CHR ''I''" by (simp add: isspace_def)
  ultimately show ?thesis by (auto simp add: strip_Nil_iff)
qed


lemma set_map_filter: "set (List.map_filter f xs) = {y. \<exists>x\<in>set xs. f x = Some y}"
  by (induction xs) (auto simp add: List.map_filter_simps split: option.splits)

lemma in_state_level:
  "q \<in> set (state_level df) \<longleftrightarrow>
     (\<exists>r\<in>set df. \<exists>state. State_UT_Name r = Some state \<and> q = state @ '', India'')"
  unfolding state_level_def set_map_filter
  by (fastforce split: option.splits)

lemma in_district_level:
  "q \<in> set (district_level df) \<longleftrightarrow>
     (\<exists>r\<in>set df. \<exists>state district. State_UT_Name r = Some state \<and> District r = Some district
        \<and> q = district @ '', '' @ state @ '', India'')"
  unfolding district_level_def set_map_filter
  by (fastforce split: option.splits)

lemma in_station_level:
  "q \<in> set (station_level df) \<longleftrightarrow>
     (\<exists>r\<in>set df. \<exists>state district station. State_UT_Name r = Some state
        \<and> District r = Some district \<and> Police_Station r = Some station
        \<and> q = station @ '', '' @ district @ '', '' @ state @ '', India'')"
  unfolding station_level_def set_map_filter
  by (fastforce split: option.splits)

lemma unique_locations_iff:
  "q \<in> unique_locations df \<longleftrightarrow>
     (\<exists>r\<in>set df. \<exists>state. State_UT_Name r = Some state \<and>
        (q = join '', '' [state, ''India'']
         \<or> (\<exists>district. District r = Some district \<and>
               (q = join '', '' [district, state, ''India'']
                \<or> (\<exists>station. Police_Station r = Some station \<and>
                      q = join '', '' [station, district, state, ''India''])))))"
  (is "?L \<longleftrightarrow> ?R")
proof
  assume ?L
  then consider "q \<in> set (state_level df)" | "q \<in> set (district_level df)"
    | "q \<in> set (station_level df)"
    by (auto simp add: unique_locations_def)
  then show ?R
  proof cases
    case 1
    then show ?thesis unfolding in_state_level by fastforce
  next
    case 2
    then show ?thesis unfolding in_district_level by fastforce
  next
    case 3
    then show ?thesis unfolding in_station_level by fastforce
  qed
next
  assume ?R
  then obtain r state where r: "r \<in> set df" "State_UT_Name r = Some state"
    and alt: "q = join '', '' [state, ''India'']
         \<or> (\<exists>district. District r = Some district \<and>
               (q = join '', '' [district, state, ''India'']
                \<or> (\<exists>station. Police_Station r = Some station \<and>
                      q = join '', '' [station, district, state, ''India''])))"
    by blast
  from alt consider "q = state @ '', India''"
    | district where "District r = Some district" "q = district @ '', '' @ state @ '', India''"
    | district station where "District r = Some district" "Police_Station r = Some station"
        "q = station @ '', '' @ district @ '', '' @ state @ '', India''"
    by auto
  then show ?L
  proof cases
    case 1
    with r have "q \<in> set (state_level df)" unfolding in_state_level by blast
    then show ?thesis by (simp add: unique_locations_def)
  next
    case 2
    with r have "q \<in> set (district_level df)" unfolding in_district_level by blast
    then show ?thesis by (simp add: unique_locations_def)
  next
    case 3
    with r have "q \<in> set (station_level df)" unfolding in_station_level by blast
    then show ?thesis by (simp add: unique_locations_def)
  qed
qed

text \<open>
  C8, as stated, fails on the builder of map10 and map11: a missing field is not left out,
  it is joined as an empty string, separator included.
\<close>

theorem key_builder_keeps_empty_fields:
  "location_query \<lparr>State_UT_Name = Some ''MH'', District = None, Police_Station = None,
       Latitude = None, Longitude = None\<rparr> = '', , MH, India''
   \<and> canonical_query_spec \<lparr>State_UT_Name = Some ''MH'', District = None, Police_Station = None,
       Latitude = None, Longitude = None\<rparr> = ''MH, India''"
  by (simp add: location_query_def canonical_query_spec_def fillna_def)

text \<open>
  C8, amended. The builder of map10 and map11 joins station, district, state and
  \<open>India\<close> with \<open>", "\<close>, a missing field counting as the empty string; the result is the
  join of the non-empty fields exactly when none of the three is empty, and it is never
  empty or blank. \<open>geocode_location\<close> of map10/preprocessing2.py rejects an empty or
  whitespace-only query with a warning before it reads the cache or sends a request. The
  builder of map8 and map9 emits, for a row with a state, the state query, and the
  district and station queries only as far as those fields are present.
\<close>

theorem key_builder:
  "location_query r =
     join '', '' [fillna (Police_Station r), fillna (District r), fillna (State_UT_Name r), ''India'']
   \<and> (location_query r = canonical_query_spec r \<longleftrightarrow>
        fillna (Police_Station r) \<noteq> [] \<and> fillna (District r) \<noteq> [] \<and> fillna (State_UT_Name r) \<noteq> [])
   \<and> strip (location_query r) \<noteq> []
   \<and> (strip q = [] \<longrightarrow>
        geocode_location_async answer q w = ((None, None, False), emit [Log Skipping_empty] w))
   \<and> (q' \<in> unique_locations df \<longleftrightarrow>
        (\<exists>r\<in>set df. \<exists>state. State_UT_Name r = Some state \<and>
           (q' = join '', '' [state, ''India'']
            \<or> (\<exists>district. District r = Some district \<and>
                  (q' = join '', '' [district, state, ''India'']
                   \<or> (\<exists>station. Police_Station r = Some station \<and>
                         q' = join '', '' [station, district, state, ''India'']))))))"
proof -
  have "strip q = [] \<longrightarrow>
        geocode_location_async answer q w = ((None, None, False), emit [Log Skipping_empty] w)"
    by (simp add: geocode_location_async_def)
  then show ?thesis
    using location_query_join [of r] location_query_canonical_iff [of r]
      location_query_not_blank [of r] unique_locations_iff [of q' df]
    by blast
qed

theorem key_builder_witness:
  "geocode_location_async (Body [(0, 0)]) ''  ''
      \<lparr>geocoded = [''  '' \<mapsto> (1, 2)], trace = []\<rparr>
    = ((None, None, False), emit [Log Skipping_empty] \<lparr>geocoded = [''  '' \<mapsto> (1, 2)], trace = []\<rparr>)
   \<and> location_query \<lparr>State_UT_Name = Some ''MH'', District = Some ''Mumbai'',
        Police_Station = Some ''Colaba'', Latitude = None, Longitude = None\<rparr>
      = ''Colaba, Mumbai, MH, India''"
proof -
  have blank: "strip ''  '' = []"
    by (simp add: strip_def isspace_def)
  from key_builder [of "\<lparr>State_UT_Name = Some ''MH'', District = Some ''Mumbai'',
        Police_Station = Some ''Colaba'', Latitude = None, Longitude = None\<rparr>" "''  ''"
        "Body [(0, 0)]" "\<lparr>geocoded = [''  '' \<mapsto> (1, 2)], trace = []\<rparr>"] blank
  show ?thesis
    by (simp add: fillna_def)
qed

section \<open>What a successful cache entry holds\<close>











section \<open>Hierarchical approximation\<close>


lemma coords_of_update [simp]:
  "coords_of (r\<lparr>Latitude := Some a, Longitude := Some b\<rparr>) = Some (a, b)"
  by (simp add: coords_of_def)




lemma length_approximate_row [simp]: "length (approximate_row i r cd) = length cd"
  by (simp add: approximate_row_def Let_def)

lemma approximate_row_other: "j \<noteq> i \<Longrightarrow> approximate_row i r cd ! j = cd ! j"
  by (simp add: approximate_row_def Let_def)

lemma approximate_row_places:
  "State_UT_Name (approximate_row i r cd ! j) = State_UT_Name (cd ! j)
   \<and> District (approximate_row i r cd ! j) = District (cd ! j)
   \<and> Police_Station (approximate_row i r cd ! j) = Police_Station (cd ! j)"
proof (cases "j = i")
  case True
  show ?thesis
  proof (cases "i < length cd")
    case True
    with \<open>j = i\<close> show ?thesis by (simp add: approximate_row_def Let_def)
  next
    case False
    then have "approximate_row i r cd = cd"
      by (simp add: approximate_row_def Let_def list_update_beyond)
    then show ?thesis by simp
  qed
next
  case False
  then have "approximate_row i r cd ! j = cd ! j"
    by (rule approximate_row_other)
  then show ?thesis by simp
qed

lemma approximate_row_resolved:
  "Latitude r \<noteq> None \<Longrightarrow> Longitude r \<noteq> None \<Longrightarrow> approximate_row i r cd = cd"
  by (auto simp add: approximate_row_def)

lemma length_approximate_loop [simp]: "length (approximate_loop todo cd) = length cd"
  by (induction todo arbitrary: cd) auto


lemma approximate_loop_places:
  "State_UT_Name (approximate_loop todo cd ! j) = State_UT_Name (cd ! j)
   \<and> District (approximate_loop todo cd ! j) = District (cd ! j)
   \<and> Police_Station (approximate_loop todo cd ! j) = Police_Station (cd ! j)"
proof (induction todo arbitrary: cd)
  case Nil
  then show ?case by simp
next
  case (Cons p todo)
  obtain i r where p: "p = (i, r)" by (cases p)
  show ?case
    using Cons.IH [of "approximate_row i r cd"] approximate_row_places [of i r cd j]
    by (simp add: p)
qed











lemma approximate_loop_resolved:
  assumes "\<forall>p\<in>set todo. fst p < length cd \<and> cd ! fst p = snd p"
    and "distinct (map fst todo)"
    and "Latitude (cd ! i) \<noteq> None" and "Longitude (cd ! i) \<noteq> None"
  shows "approximate_loop todo cd ! i = cd ! i"
  using assms
proof (induction todo arbitrary: cd)
  case Nil
  then show ?case by simp
next
  case (Cons p todo)
  obtain j rj where p: "p = (j, rj)" by (cases p)
  from Cons.prems(1) p have j: "j < length cd" "cd ! j = rj" by simp_all
  let ?cd = "approximate_row j rj cd"
  from Cons.prems(2) p have fresh: "j \<notin> fst ` set todo" and d': "distinct (map fst todo)"
    by simp_all
  have wf': "\<forall>q\<in>set todo. fst q < length ?cd \<and> ?cd ! fst q = snd q"
  proof
    fix q assume q: "q \<in> set todo"
    with fresh have "fst q \<noteq> j" by auto
    then have "?cd ! fst q = cd ! fst q" by (rule approximate_row_other)
    with Cons.prems(1) q show "fst q < length ?cd \<and> ?cd ! fst q = snd q" by simp
  qed
  have same: "?cd ! i = cd ! i"
  proof (cases "i = j")
    case True
    with j Cons.prems(3,4) have "approximate_row j rj cd = cd"
      by (simp add: approximate_row_resolved)
    then show ?thesis by simp
  next
    case False
    then show ?thesis by (rule approximate_row_other)
  qed
  with Cons.prems(3,4) have "Latitude (?cd ! i) \<noteq> None" "Longitude (?cd ! i) \<noteq> None"
    by simp_all
  from Cons.IH [OF wf' d' this] same show ?case by (simp add: p)
qed

lemma enumerate_wf:
  "\<forall>p\<in>set (enumerate 0 cd). fst p < length cd \<and> cd ! fst p = snd p"
  by (auto simp add: in_set_enumerate_eq)

lemma enumerate_distinct: "distinct (map fst (enumerate 0 cd))"
  by simp



text \<open>
  C9. \<open>approximate_missing_locations\<close> works on the frame alone. The two cache tables
  are after the step what they were before it, a failed entry included; the frame keeps
  its length and its place columns, and a record that had both coordinates keeps them.
\<close>

theorem approximation_leaves_cache_unchanged:
  "locations_db (approximation_step s) = locations_db s
   \<and> geocoding_cache_db (approximation_step s) = geocoding_cache_db s
   \<and> length (crime_data_frame (approximation_step s)) = length (crime_data_frame s)
   \<and> State_UT_Name (crime_data_frame (approximation_step s) ! i)
       = State_UT_Name (crime_data_frame s ! i)
   \<and> District (crime_data_frame (approximation_step s) ! i) = District (crime_data_frame s ! i)
   \<and> Police_Station (crime_data_frame (approximation_step s) ! i)
       = Police_Station (crime_data_frame s ! i)
   \<and> (Latitude (crime_data_frame s ! i) \<noteq> None \<and> Longitude (crime_data_frame s ! i) \<noteq> None \<longrightarrow>
        crime_data_frame (approximation_step s) ! i = crime_data_frame s ! i)"
proof -
  have "Latitude (crime_data_frame s ! i) \<noteq> None \<and> Longitude (crime_data_frame s ! i) \<noteq> None \<longrightarrow>
        approximate_missing_locations (crime_data_frame s) ! i = crime_data_frame s ! i"
    unfolding approximate_missing_locations_def
    using approximate_loop_resolved [OF enumerate_wf enumerate_distinct, of "crime_data_frame s" i]
    by blast
  then show ?thesis
    using approximate_loop_places [of "enumerate 0 (crime_data_frame s)" "crime_data_frame s" i]
    by (simp add: approximation_step_def approximate_missing_locations_def)
qed

theorem approximation_leaves_cache_unchanged_witness:
  "locations_db (approximation_step
      \<lparr>locations_db = [''Unknown-Station, Mumbai, MH, India'' \<mapsto>
          \<lparr>location_string = ''Unknown-Station, Mumbai, MH, India'', latitude = None,
           longitude = None, attempts = 1, last_attempt = 3, success = False, timestamp = 3\<rparr>],
       geocoding_cache_db = Map.empty,
       crime_data_frame =
         [\<lparr>State_UT_Name = Some ''MH'', District = Some ''Mumbai'', Police_Station = Some ''Colaba'',
           Latitude = Some 19, Longitude = Some 73\<rparr>,
          \<lparr>State_UT_Name = Some ''MH'', District = Some ''Mumbai'',
           Police_Station = Some ''Unknown-Station'', Latitude = None, Longitude = None\<rparr>]\<rparr>)
     ''Unknown-Station, Mumbai, MH, India''
     = Some \<lparr>location_string = ''Unknown-Station, Mumbai, MH, India'', latitude = None,
           longitude = None, attempts = 1, last_attempt = 3, success = False, timestamp = 3\<rparr>
   \<and> crime_data_frame (approximation_step
      \<lparr>locations_db = [''Unknown-Station, Mumbai, MH, India'' \<mapsto>
          \<lparr>location_string = ''Unknown-Station, Mumbai, MH, India'', latitude = None,
           longitude = None, attempts = 1, last_attempt = 3, success = False, timestamp = 3\<rparr>],
       geocoding_cache_db = Map.empty,
       crime_data_frame =
         [\<lparr>State_UT_Name = Some ''MH'', District = Some ''Mumbai'', Police_Station = Some ''Colaba'',
           Latitude = Some 19, Longitude = Some 73\<rparr>,
          \<lparr>State_UT_Name = Some ''MH'', District = Some ''Mumbai'',
           Police_Station = Some ''Unknown-Station'', Latitude = None, Longitude = None\<rparr>]\<rparr>) ! 0
     = \<lparr>State_UT_Name = Some ''MH'', District = Some ''Mumbai'', Police_Station = Some ''Colaba'',
           Latitude = Some 19, Longitude = Some 73\<rparr>"
proof -
  let ?s = "\<lparr>locations_db = [''Unknown-Station, Mumbai, MH, India'' \<mapsto>
          \<lparr>location_string = ''Unknown-Station, Mumbai, MH, India'', latitude = None,
           longitude = None, attempts = 1, last_attempt = 3, success = False, timestamp = 3\<rparr>],
       geocoding_cache_db = Map.empty,
       crime_data_frame =
         [\<lparr>State_UT_Name = Some ''MH'', District = Some ''Mumbai'', Police_Station = Some ''Colaba'',
           Latitude = Some 19, Longitude = Some 73\<rparr>,
          \<lparr>State_UT_Name = Some ''MH'', District = Some ''Mumbai'',
           Police_Station = Some ''Unknown-Station'', Latitude = None, Longitude = None\<rparr>]\<rparr>"
  have resolved: "Latitude (crime_data_frame ?s ! 0) \<noteq> None
      \<and> Longitude (crime_data_frame ?s ! 0) \<noteq> None"
    by simp
  from approximation_leaves_cache_unchanged [of ?s 0] resolved
  have "locations_db (approximation_step ?s) = locations_db ?s"
    and "crime_data_frame (approximation_step ?s) ! 0 = crime_data_frame ?s ! 0"
    by blast+
  then show ?thesis by simp
qed

end
